theory Spec2Isabelle
  imports Complex_Main
begin

section \<open>Data model of the API service (src/lib/api.ts)\<close>

text \<open>
  The status of a job as the backend reports it. The field \<open>status\<close> of the interface
  \<open>JobStatus\<close> is a union of six string literals, here a datatype; the optional fields
  are options. \<open>progress\<close> and \<open>score\<close> are payload that no function of the client
  computes with.
\<close>

datatype Status = Pending | Analyzing | Roasting | Generating | Completed | Failed

record JobStatus =
  job_id :: string
  status :: Status
  progress :: int
  message :: string
  video_url :: "string option"
  roast_text :: "string option"
  score :: "int option"
  error :: "string option"

text \<open>
  A value that a JavaScript \<open>throw\<close> or a rejected promise carries: an instance of
  \<open>Error\<close> with its message, or any other value.
\<close>

datatype thrown = Error string | NotAnError string

text \<open>
  \<open>x || d\<close> on an optional string: \<open>undefined\<close> and the empty string are falsy.
\<close>

definition or_else :: "string option \<Rightarrow> string \<Rightarrow> string" where
  "or_else x d = (case x of None \<Rightarrow> d | Some s \<Rightarrow> if s = [] then d else s)"

section \<open>Requests and replies (src/lib/api.ts)\<close>

text \<open>
  \<open>API_BASE_URL\<close> is \<open>import.meta.env.VITE_API_URL || "http://localhost:8000"\<close>; the
  environment variable is a parameter of the model.
\<close>

definition API_BASE_URL :: "string option \<Rightarrow> string" where
  "API_BASE_URL env = or_else env ''http://localhost:8000''"

text \<open>A browser \<open>File\<close>: its name, its MIME type and its size in bytes.\<close>

record File =
  file_name :: string
  file_type :: string
  file_size :: nat

datatype form_value = FileField File | TextField string

record request =
  url :: string
  http_method :: string
  form :: "(string \<times> form_value) list"

record UploadResponse =
  upload_job_id :: string
  upload_message :: string

text \<open>
  The reply to the upload request, as far as \<open>uploadResume\<close> tells replies apart, for
  bodies of the declared shapes (\<open>UploadResponse\<close> on success, an object with an optional
  string \<open>detail\<close> on failure):
  \<^item> \<open>FetchRejected e\<close>: \<open>fetch\<close> itself rejects with \<open>e\<close>;
  \<^item> \<open>NotOkNotJson\<close>: \<open>response.ok\<close> is false and the body does not parse;
  \<^item> \<open>NotOk d\<close>: \<open>response.ok\<close> is false and the body parses, with \<open>detail\<close> \<open>d\<close>;
  \<^item> \<open>OkNotJson e\<close>: \<open>response.ok\<close> is true and \<open>response.json()\<close> rejects with \<open>e\<close>;
  \<^item> \<open>Ok r\<close>: \<open>response.ok\<close> is true and the body parses to \<open>r\<close>.
\<close>

datatype upload_reply =
    FetchRejected thrown
  | NotOkNotJson
  | NotOk "string option"
  | OkNotJson thrown
  | Ok UploadResponse

text \<open>
  The request that \<open>uploadResume\<close> sends. The second parameter has the default
  \<open>"subway_surfer"\<close>, taken when the argument is omitted.
\<close>

definition uploadResume_request :: "string option \<Rightarrow> File \<Rightarrow> string option \<Rightarrow> request" where
  "uploadResume_request env file backgroundVideo =
     \<lparr>url = API_BASE_URL env @ ''/api/upload'', http_method = ''POST'',
      form = [(''file'', FileField file),
              (''background_video'',
                 TextField (case backgroundVideo of None \<Rightarrow> ''subway_surfer'' | Some b \<Rightarrow> b))]\<rparr>"

text \<open>
  \<open>uploadResume\<close> against a backend in state \<open>b\<close>: \<open>fetch\<close> takes the request and the
  state of the backend and gives the reply and the new state.
\<close>

definition uploadResume ::
  "string option \<Rightarrow> (request \<Rightarrow> 'b \<Rightarrow> upload_reply \<times> 'b) \<Rightarrow> File \<Rightarrow> string option \<Rightarrow> 'b
     \<Rightarrow> (thrown + UploadResponse) \<times> 'b" where
  "uploadResume env fetch file backgroundVideo b =
     (case fetch (uploadResume_request env file backgroundVideo) b of
        (FetchRejected e, b') \<Rightarrow> (Inl e, b')
      | (NotOkNotJson, b') \<Rightarrow> (Inl (Error (or_else (Some ''Upload failed'') ''Failed to upload resume'')), b')
      | (NotOk d, b') \<Rightarrow> (Inl (Error (or_else d ''Failed to upload resume'')), b')
      | (OkNotJson e, b') \<Rightarrow> (Inl e, b')
      | (Ok r, b') \<Rightarrow> (Inr r, b'))"

definition getVideoUrl :: "string option \<Rightarrow> string \<Rightarrow> string" where
  "getVideoUrl env jobId' = API_BASE_URL env @ ''/api/video/'' @ jobId'"

text \<open>
  A parsed JSON body. \<open>getAvailableBackgrounds\<close> reads a field of a body that has no
  declared type, so the body is a JSON value here. \<open>JNum\<close> holds the value of a finite
  number. In an object a later member with the same key wins, as \<open>JSON.parse\<close> has it.
\<close>

datatype json =
    JNull
  | JBool bool
  | JNum rat
  | JStr string
  | JArr "json list"
  | JObj "(string \<times> json) list"

text \<open>
  \<open>v.k\<close> for a key \<open>k\<close> that is not a built-in property (such as \<open>backgrounds\<close>):
  a \<open>TypeError\<close> on \<open>null\<close>, the member on an object, \<open>undefined\<close> (\<open>None\<close>) on
  everything else.
\<close>

fun js_get :: "json \<Rightarrow> string \<Rightarrow> thrown + json option" where
  "js_get JNull k =
     Inl (Error (''Cannot read properties of null (reading '' @ [CHR 0x27] @ k @ [CHR 0x27] @ '')''))"
| "js_get (JObj kvs) k = Inr (map_of (rev kvs) k)"
| "js_get _ k = Inr None"

fun truthy :: "json \<Rightarrow> bool" where
  "truthy JNull = False"
| "truthy (JBool b) = b"
| "truthy (JNum n) = (n \<noteq> 0)"
| "truthy (JStr s) = (s \<noteq> [])"
| "truthy (JArr _) = True"
| "truthy (JObj _) = True"

text \<open>
  A response as \<open>getAvailableBackgrounds\<close> reads it: \<open>response.ok\<close> and what
  \<open>response.json()\<close> settles with.
\<close>

record response =
  ok :: bool
  json_body :: "thrown + json"

definition getAvailableBackgrounds ::
  "string option \<Rightarrow> (request \<Rightarrow> thrown + response) \<Rightarrow> thrown + json" where
  "getAvailableBackgrounds env fetch =
     (case fetch \<lparr>url = API_BASE_URL env @ ''/api/backgrounds'', http_method = ''GET'', form = []\<rparr> of
        Inl e \<Rightarrow> Inl e
      | Inr resp \<Rightarrow>
          if \<not> ok resp then Inl (Error ''Failed to get backgrounds'')
          else (case json_body resp of
                  Inl e \<Rightarrow> Inl e
                | Inr data \<Rightarrow>
                    (case js_get data ''backgrounds'' of
                       Inl e \<Rightarrow> Inl e
                     | Inr None \<Rightarrow> Inr (JArr [])
                     | Inr (Some v) \<Rightarrow> Inr (if truthy v then v else JArr []))))"

section \<open>The promise-based poller \<open>pollJobStatus\<close> (src/lib/api.ts)\<close>

text \<open>
  The closure of one call of \<open>pollJobStatus\<close> together with what the event loop holds
  for it:
  \<^item> \<open>jobId\<close>, \<open>onProgress\<close>, \<open>intervalMs\<close>: the parameters. The callback is handed
    the status object itself, the one that \<open>checkStatus\<close> tests afterwards, and may write
    to it: its result is \<open>Inl e\<close> when it throws \<open>e\<close>, and \<open>Inr st'\<close> when it returns
    normally, \<open>st'\<close> being the object as the callback left it;
  \<^item> \<open>in_flight\<close>: the calls of \<open>getJobStatus\<close> that were issued and have not settled;
  \<^item> \<open>timers\<close>: the delays of the timeouts that \<open>setTimeout\<close> scheduled and that have
    not fired, oldest first;
  \<^item> \<open>reads\<close>: the job id of every status read issued so far;
  \<^item> \<open>calls\<close>: the arguments of every invocation of \<open>onProgress\<close> so far;
  \<^item> \<open>outcome\<close>: the returned promise, \<open>None\<close> while it is pending, \<open>Inr\<close> once
    resolved and \<open>Inl\<close> once rejected.
\<close>

record poller =
  jobId :: string
  onProgress :: "(JobStatus \<Rightarrow> thrown + JobStatus) option"
  intervalMs :: int
  in_flight :: nat
  timers :: "int list"
  reads :: "string list"
  calls :: "JobStatus list"
  outcome :: "(thrown + JobStatus) option"

text \<open>A promise settles once: \<open>resolve\<close> and \<open>reject\<close> on a settled promise do nothing.\<close>

definition resolve :: "JobStatus \<Rightarrow> poller \<Rightarrow> poller" where
  "resolve st p = (case outcome p of None \<Rightarrow> p\<lparr>outcome := Some (Inr st)\<rparr> | Some _ \<Rightarrow> p)"

definition reject :: "thrown \<Rightarrow> poller \<Rightarrow> poller" where
  "reject e p = (case outcome p of None \<Rightarrow> p\<lparr>outcome := Some (Inl e)\<rparr> | Some _ \<Rightarrow> p)"

definition setTimeout :: "int \<Rightarrow> poller \<Rightarrow> poller" where
  "setTimeout d p = p\<lparr>timers := timers p @ [d]\<rparr>"

text \<open>
  \<open>checkStatus\<close> up to its \<open>await\<close>: the status read for \<open>jobId\<close> is issued.
  \<open>getJobStatus\<close> is an \<open>async\<close> function, so the call itself never throws.
\<close>

definition checkStatus :: "poller \<Rightarrow> poller" where
  "checkStatus p = p\<lparr>in_flight := Suc (in_flight p), reads := reads p @ [jobId p]\<rparr>"

text \<open>
  The invocation of the optional progress callback with the status object \<open>st\<close>. The
  result is the value the callback threw, or the status object as it is after the call
  (\<open>st\<close> itself without a callback), and the poller with the invocation recorded.
\<close>

definition call_onProgress :: "JobStatus \<Rightarrow> poller \<Rightarrow> (thrown + JobStatus) \<times> poller" where
  "call_onProgress st p =
     (case onProgress p of
        None \<Rightarrow> (Inr st, p)
      | Some cb \<Rightarrow> (cb st, p\<lparr>calls := calls p @ [st]\<rparr>))"

text \<open>
  \<open>checkStatus\<close> after its \<open>await\<close>, with the result \<open>r\<close> of the status read
  (\<open>Inl\<close>: \<open>getJobStatus\<close> threw). Everything is inside the \<open>try\<close>, so a value thrown by
  the read or by the callback reaches \<open>catch\<close>, which rejects and schedules nothing. The
  tests of \<open>status.status\<close> and the uses of \<open>status\<close> come after the callback and see the
  object as the callback left it.
\<close>

definition checkStatus_resume :: "thrown + JobStatus \<Rightarrow> poller \<Rightarrow> poller" where
  "checkStatus_resume r p =
     (case r of
        Inl e \<Rightarrow> reject e p
      | Inr st \<Rightarrow>
          (case call_onProgress st p of
             (Inl e, p1) \<Rightarrow> reject e p1
           | (Inr st', p1) \<Rightarrow>
               if status st' = Completed then resolve st' p1
               else if status st' = Failed
                 then reject (Error (or_else (error st') ''Job failed'')) p1
               else setTimeout (intervalMs p1) p1))"

text \<open>
  What the environment does to a running poller: the pending status read settles, a
  scheduled timeout fires, or the caller is torn down. \<open>pollJobStatus\<close> returns only the
  promise: it does not keep the handle of its timeout and takes no abort signal, so a
  teardown of the caller reaches no code of the loop. An event that is not possible in
  the state (a response to no request, a timeout that was not scheduled) has no
  successor.
\<close>

datatype poll_event = Returned "thrown + JobStatus" | TimerFired | Teardown

fun poll_step :: "poller \<Rightarrow> poll_event \<Rightarrow> poller option" where
  "poll_step p (Returned r) =
     (if in_flight p = 0 then None
      else Some (checkStatus_resume r (p\<lparr>in_flight := in_flight p - 1\<rparr>)))"
| "poll_step p TimerFired =
     (case timers p of
        [] \<Rightarrow> None
      | d # ds \<Rightarrow> Some (checkStatus (p\<lparr>timers := ds\<rparr>)))"
| "poll_step p Teardown = Some p"

fun poll_run :: "poller \<Rightarrow> poll_event list \<Rightarrow> poller option" where
  "poll_run p [] = Some p"
| "poll_run p (e # es) = (case poll_step p e of None \<Rightarrow> None | Some p' \<Rightarrow> poll_run p' es)"

text \<open>
  The call itself: the executor of the promise runs \<open>checkStatus()\<close> at once. The
  interval defaults to 2000 when the argument is omitted.
\<close>

definition pollJobStatus ::
  "string \<Rightarrow> (JobStatus \<Rightarrow> thrown + JobStatus) option \<Rightarrow> int option \<Rightarrow> poller" where
  "pollJobStatus j cb iv =
     checkStatus \<lparr>jobId = j, onProgress = cb,
       intervalMs = (case iv of None \<Rightarrow> 2000 | Some d \<Rightarrow> d),
       in_flight = 0, timers = [], reads = [], calls = [], outcome = None\<rparr>"

section \<open>The interval-based poller of the page \<open>Generate\<close> (src/pages/Generate.tsx)\<close>

datatype ProcessingStage = analyzing | roasting | generating | complete

datatype toast = toast_success string | toast_error string

text \<open>
  The state of the page and of its effect:
  \<^item> \<open>VITE_API_URL\<close>: the environment variable that \<open>getVideoUrl\<close> reads;
  \<^item> \<open>page_jobId\<close>: the search parameter \<open>jobId\<close> of a page that polls;
  \<^item> \<open>processingStage\<close>, \<open>videoUrl\<close>, \<open>page_error\<close>: the three \<open>useState\<close> cells
    (\<open>null\<close> is \<open>None\<close>);
  \<^item> \<open>pollInterval\<close>: the period of the interval timer while it is active, \<open>None\<close>
    before \<open>setInterval\<close> and after \<open>clearInterval\<close>;
  \<^item> \<open>page_in_flight\<close>: the calls of \<open>getJobStatus\<close> that were issued and have not
    settled;
  \<^item> \<open>page_reads\<close>: the job id of every status read issued so far;
  \<^item> \<open>toasts\<close>, \<open>navigations\<close>: the toasts shown and the routes navigated to.
\<close>

record page =
  VITE_API_URL :: "string option"
  page_jobId :: string
  processingStage :: "ProcessingStage option"
  videoUrl :: "string option"
  page_error :: "string option"
  pollInterval :: "int option"
  page_in_flight :: nat
  page_reads :: "string list"
  toasts :: "toast list"
  navigations :: "string list"

definition clearInterval :: "page \<Rightarrow> page" where
  "clearInterval g = g\<lparr>pollInterval := None\<rparr>"

definition show_toast :: "toast \<Rightarrow> page \<Rightarrow> page" where
  "show_toast t g = g\<lparr>toasts := toasts g @ [t]\<rparr>"

text \<open>\<open>pollStatus\<close> up to its \<open>await\<close>: the status read is issued.\<close>

definition pollStatus :: "page \<Rightarrow> page" where
  "pollStatus g =
     g\<lparr>page_in_flight := Suc (page_in_flight g), page_reads := page_reads g @ [page_jobId g]\<rparr>"

text \<open>
  \<open>pollStatus\<close> after its \<open>await\<close>. The status \<open>pending\<close> matches no branch. The
  continuation of an \<open>await\<close> runs after the synchronous rest of the effect, so
  \<open>pollInterval\<close> is assigned by then and each guarded \<open>clearInterval\<close> is executed.
\<close>

definition pollStatus_resume :: "thrown + JobStatus \<Rightarrow> page \<Rightarrow> page" where
  "pollStatus_resume r g =
     (case r of
        Inr st \<Rightarrow>
          (case status st of
             Analyzing \<Rightarrow> g\<lparr>processingStage := Some analyzing\<rparr>
           | Roasting \<Rightarrow> g\<lparr>processingStage := Some roasting\<rparr>
           | Generating \<Rightarrow> g\<lparr>processingStage := Some generating\<rparr>
           | Completed \<Rightarrow>
               show_toast (toast_success ''Your roast video is ready!'')
                 (clearInterval
                   (g\<lparr>processingStage := Some complete,
                      videoUrl := Some (getVideoUrl (VITE_API_URL g) (page_jobId g))\<rparr>))
           | Failed \<Rightarrow>
               clearInterval
                 (show_toast (toast_error (or_else (error st) ''Processing failed''))
                   (g\<lparr>page_error := Some (or_else (error st) ''Processing failed'')\<rparr>))
           | Pending \<Rightarrow> g)
      | Inl err \<Rightarrow>
          clearInterval
            (show_toast (toast_error ''Failed to get processing status'')
              (g\<lparr>page_error :=
                   Some (case err of Error m \<Rightarrow> m | NotAnError _ \<Rightarrow> ''Failed to get status'')\<rparr>)))"

text \<open>
  What the environment does to the mounted page: one of the pending status reads settles,
  the interval timer ticks, or the component is unmounted and the cleanup of the effect
  runs. A tick of a timer that is not active and a response to no request are not
  possible.
\<close>

datatype page_event = PageReturned "thrown + JobStatus" | Tick | Unmount

fun page_step :: "page \<Rightarrow> page_event \<Rightarrow> page option" where
  "page_step g (PageReturned r) =
     (if page_in_flight g = 0 then None
      else Some (pollStatus_resume r (g\<lparr>page_in_flight := page_in_flight g - 1\<rparr>)))"
| "page_step g Tick =
     (case pollInterval g of None \<Rightarrow> None | Some _ \<Rightarrow> Some (pollStatus g))"
| "page_step g Unmount = Some (clearInterval g)"

fun page_run :: "page \<Rightarrow> page_event list \<Rightarrow> page option" where
  "page_run g [] = Some g"
| "page_run g (e # es) = (case page_step g e of None \<Rightarrow> None | Some g' \<Rightarrow> page_run g' es)"

text \<open>
  The effect of the page at mount, with the environment variable and the search parameter
  \<open>jobId\<close> (\<open>None\<close> when the parameter is absent). Without a job id (\<open>null\<close> or the empty
  string) the page shows an error and navigates home; otherwise it polls once at
  once and sets the interval timer to 2000.
\<close>

definition Generate :: "string option \<Rightarrow> string option \<Rightarrow> page" where
  "Generate env jobIdParam =
     (let g0 = \<lparr>VITE_API_URL = env, page_jobId = or_else jobIdParam [],
                processingStage = Some analyzing, videoUrl = None, page_error = None,
                pollInterval = None, page_in_flight = 0, page_reads = [], toasts = [],
                navigations = []\<rparr>
      in if or_else jobIdParam [] = []
         then (show_toast (toast_error ''No job ID provided'') g0)\<lparr>navigations := [''/'']\<rparr>
         else (pollStatus g0)\<lparr>pollInterval := Some 2000\<rparr>)"

section \<open>The upload section (component \<open>UploadSection\<close>) and the page \<open>Index\<close>\<close>

text \<open>
  The state the upload section works on: \<open>uploadedFile\<close> and \<open>backgroundVideo\<close> are state
  cells of the page \<open>Index\<close>, passed down with their setters (\<open>onFileUpload\<close> is
  \<open>setUploadedFile\<close>); the rest is the section's own.
\<close>

record upload_section =
  uploadedFile :: "File option"
  backgroundVideo :: string
  isDragging :: bool
  isUploading :: bool
  upload_toasts :: "toast list"
  upload_navigations :: "string list"

definition Index :: upload_section where
  "Index = \<lparr>uploadedFile = None, backgroundVideo = ''subway_surfer'', isDragging = False,
            isUploading = False, upload_toasts = [], upload_navigations = []\<rparr>"

text \<open>\<open>handleBackgroundChange\<close> of the page \<open>Index\<close>, behind each background button.\<close>

definition handleBackgroundChange :: "string \<Rightarrow> upload_section \<Rightarrow> upload_section" where
  "handleBackgroundChange background u = u\<lparr>backgroundVideo := background\<rparr>"

text \<open>The background choices the section offers, in the order of its buttons.\<close>

definition background_choices :: "string list" where
  "background_choices = [''subway_surfer'', ''minecraft'', ''fortnite'', ''templerun'', ''satisfying'']"

definition endsWith :: "string \<Rightarrow> string \<Rightarrow> bool" where
  "endsWith s suffix' \<longleftrightarrow>
     length suffix' \<le> length s \<and> drop (length s - length suffix') s = suffix'"

text \<open>
  \<open>handleFileInput\<close> with \<open>e.target.files\<close> (\<open>None\<close> for \<open>null\<close>): the first file is taken
  when its type is \<open>application/pdf\<close> or its name ends with \<open>.pdf\<close>. Nothing reads its
  size.
\<close>

definition handleFileInput :: "File list option \<Rightarrow> upload_section \<Rightarrow> upload_section" where
  "handleFileInput files u =
     (case files of
        None \<Rightarrow> u
      | Some [] \<Rightarrow> u
      | Some (file # _) \<Rightarrow>
          if file_type file = ''application/pdf'' \<or> endsWith (file_name file) ''.pdf''
          then u\<lparr>uploadedFile := Some file,
                 upload_toasts := upload_toasts u @ [toast_success ''Resume uploaded successfully!'']\<rparr>
          else u\<lparr>upload_toasts := upload_toasts u @ [toast_error ''Please upload a PDF file'']\<rparr>)"

text \<open>\<open>handleDrop\<close> with \<open>e.dataTransfer.files\<close>: the same check after the drag has ended.\<close>

definition handleDrop :: "File list option \<Rightarrow> upload_section \<Rightarrow> upload_section" where
  "handleDrop files u0 =
     (let u = u0\<lparr>isDragging := False\<rparr> in
      case files of
        None \<Rightarrow> u
      | Some [] \<Rightarrow> u
      | Some (file # _) \<Rightarrow>
          if file_type file = ''application/pdf'' \<or> endsWith (file_name file) ''.pdf''
          then u\<lparr>uploadedFile := Some file,
                 upload_toasts := upload_toasts u @ [toast_success ''Resume uploaded successfully!'']\<rparr>
          else u\<lparr>upload_toasts := upload_toasts u @ [toast_error ''Please upload a PDF file'']\<rparr>)"

text \<open>
  \<open>handleGenerateRoast\<close>: without a file an error toast; otherwise the file is uploaded
  with the chosen background, and the page navigates to the job on success.
\<close>

definition handleGenerateRoast ::
  "string option \<Rightarrow> (request \<Rightarrow> 'b \<Rightarrow> upload_reply \<times> 'b) \<Rightarrow> upload_section \<Rightarrow> 'b
     \<Rightarrow> upload_section \<times> 'b" where
  "handleGenerateRoast env fetch u b =
     (case uploadedFile u of
        None \<Rightarrow> (u\<lparr>upload_toasts := upload_toasts u @ [toast_error ''No file uploaded'']\<rparr>, b)
      | Some file \<Rightarrow>
          (case uploadResume env fetch file (Some (backgroundVideo u)) b of
             (Inr resp, b') \<Rightarrow>
               (u\<lparr>isUploading := True,
                  upload_toasts := upload_toasts u @ [toast_success ''Upload successful! Generating roast...''],
                  upload_navigations := upload_navigations u @ [''/generate?jobId='' @ upload_job_id resp]\<rparr>,
                b')
           | (Inl err, b') \<Rightarrow>
               (u\<lparr>isUploading := False,
                  upload_toasts := upload_toasts u @
                    [toast_error (case err of Error m \<Rightarrow> m | NotAnError _ \<Rightarrow> ''Failed to upload resume'')]\<rparr>,
                b')))"

section \<open>The submit endpoint of the backend\<close>

text \<open>
  The backend is not part of the client's source, which holds only the caller
  \<open>uploadResume\<close> of its submit endpoint. The endpoint and its job store follow the
  specification of the system.
\<close>

text \<open>
  Modelled from the spec: the size ceiling of a submitted document, 10 MB, in bytes (the
  backend's constant is missing).
\<close>

definition size_ceiling :: nat where
  "size_ceiling = 10 * 1024 * 1024"

text \<open>The job store: the job records by their ids, in the order of their creation.\<close>

type_synonym job_store = "(string \<times> JobStatus) list"

text \<open>
  Modelled from the spec: the submit endpoint of the backend (\<open>POST /api/upload\<close>), which
  is missing from the sources. A document that is not of a supported format or that
  exceeds the size ceiling is rejected with a validation error before a job is created;
  any other submission creates a job record in the initial pending state and returns
  its new id at once. Which formats are supported and how ids are made are parameters;
  the texts of the messages are placeholders.
\<close>

definition submit_document ::
  "(File \<Rightarrow> bool) \<Rightarrow> (job_store \<Rightarrow> string) \<Rightarrow> request \<Rightarrow> job_store \<Rightarrow> upload_reply \<times> job_store" where
  "submit_document supported new_id req store =
     (case map_of (form req) ''file'' of
        Some (FileField doc) \<Rightarrow>
          if \<not> supported doc then (NotOk (Some ''Unsupported document format''), store)
          else if size_ceiling < file_size doc then (NotOk (Some ''Document too large''), store)
          else
            (let i = new_id store in
             (Ok \<lparr>upload_job_id = i, upload_message = ''Job created''\<rparr>,
              store @ [(i, \<lparr>job_id = i, status = Pending, progress = 0, message = ''Job created'',
                            video_url = None, roast_text = None, score = None, error = None\<rparr>)]))
      | _ \<Rightarrow> (NotOk (Some ''No document''), store))"

text \<open>
  One submission from a fresh page against the backend: the user hands a document to
  \<open>handler\<close> (\<open>handleFileInput\<close> or \<open>handleDrop\<close>). The background buttons and the
  generate button are rendered only while a file is uploaded, so after a refused
  document the submission ends there; otherwise the user may press a background button
  and presses the generate button.
\<close>

definition submit_flow ::
  "(File list option \<Rightarrow> upload_section \<Rightarrow> upload_section) \<Rightarrow> string option \<Rightarrow> (File \<Rightarrow> bool)
     \<Rightarrow> (job_store \<Rightarrow> string) \<Rightarrow> File \<Rightarrow> string option \<Rightarrow> job_store
     \<Rightarrow> upload_section \<times> job_store" where
  "submit_flow handler env supported new_id doc background store =
     (let u1 = handler (Some [doc]) Index in
      case uploadedFile u1 of
        None \<Rightarrow> (u1, store)
      | Some _ \<Rightarrow>
          (let u2 = (case background of None \<Rightarrow> u1 | Some bg \<Rightarrow> handleBackgroundChange bg u1)
           in handleGenerateRoast env (submit_document supported new_id) u2 store))"

section \<open>Notions for the statements, and example inputs\<close>


fun is_error_toast :: "toast \<Rightarrow> bool" where
  "is_error_toast (toast_error _) = True"
| "is_error_toast (toast_success _) = False"

text \<open>A status object of the job \<open>job-1\<close>, for the examples.\<close>

definition example_status :: "Status \<Rightarrow> string option \<Rightarrow> JobStatus" where
  "example_status s e =
     \<lparr>job_id = ''job-1'', status = s, progress = 0, message = [], video_url = None,
      roast_text = None, score = None, error = e\<rparr>"

text \<open>A progress callback that throws at every status, for the examples.\<close>

definition throwing_callback :: "JobStatus \<Rightarrow> thrown + JobStatus" where
  "throwing_callback st = Inl (Error ''callback failed'')"

text \<open>
  A progress callback that returns normally and leaves the status object as it is, for
  the examples.
\<close>

definition quiet_callback :: "JobStatus \<Rightarrow> thrown + JobStatus" where
  "quiet_callback st = Inr st"

text \<open>
  A progress callback that returns normally after writing \<open>analyzing\<close> to the field
  \<open>status\<close> of the status object, for the examples.
\<close>

definition rewriting_callback :: "JobStatus \<Rightarrow> thrown + JobStatus" where
  "rewriting_callback st = Inr (st\<lparr>status := Analyzing\<rparr>)"

text \<open>
  A backend for the statements about \<open>uploadResume\<close>: it answers a request with
  \<open>reply\<close> and keeps the list of the requests it has received.
\<close>

definition recording_fetch ::
  "(request \<Rightarrow> upload_reply) \<Rightarrow> request \<Rightarrow> request list \<Rightarrow> upload_reply \<times> request list" where
  "recording_fetch reply req received = (reply req, received @ [req])"

text \<open>
  A backend for the statements about \<open>getAvailableBackgrounds\<close>: it answers every request
  with a response that is \<open>ok\<close> and whose body parses to \<open>body\<close>.
\<close>

definition reply_with :: "json \<Rightarrow> request \<Rightarrow> thrown + response" where
  "reply_with body req = Inr \<lparr>ok = True, json_body = Inr body\<rparr>"

text \<open>
  The three phases of the loop: a read is pending, a timeout is scheduled, or the promise
  is settled; exactly one of them holds.
\<close>

definition poll_phase :: "poller \<Rightarrow> bool" where
  "poll_phase p \<longleftrightarrow>
     (in_flight p = 1 \<and> timers p = [] \<and> outcome p = None) \<or>
     (in_flight p = 0 \<and> length (timers p) = 1 \<and> outcome p = None) \<or>
     (in_flight p = 0 \<and> timers p = [] \<and> outcome p \<noteq> None)"

section \<open>Invariants of the two polling loops\<close>

lemma poll_phase_init: "poll_phase (pollJobStatus j cb iv)"
  by (simp add: poll_phase_def pollJobStatus_def checkStatus_def)

lemma poll_phase_step:
  assumes "poll_phase p" and "poll_step p e = Some p'"
  shows "poll_phase p'"
proof (cases e)
  case (Returned r)
  with assms show ?thesis
    by (auto simp: poll_phase_def checkStatus_resume_def call_onProgress_def
        reject_def resolve_def setTimeout_def
        split: if_splits sum.splits option.splits prod.splits)
next
  case TimerFired
  with assms show ?thesis
    by (auto simp: poll_phase_def checkStatus_def split: list.splits)
next
  case Teardown
  with assms show ?thesis by simp
qed

lemma poll_phase_run:
  "poll_phase p \<Longrightarrow> poll_run p es = Some p' \<Longrightarrow> poll_phase p'"
  by (induction es arbitrary: p) (auto split: option.splits dest: poll_phase_step)

lemma poll_quiescent:
  "in_flight p = 0 \<Longrightarrow> timers p = [] \<Longrightarrow> poll_run p es = Some p' \<Longrightarrow> p' = p"
proof (induction es arbitrary: p)
  case Nil
  then show ?case by simp
next
  case (Cons e es)
  then show ?case by (cases e) (auto split: option.splits)
qed

lemma poll_step_params:
  "poll_step p e = Some p' \<Longrightarrow>
     jobId p' = jobId p \<and> onProgress p' = onProgress p \<and> intervalMs p' = intervalMs p"
  by (cases e)
    (auto simp: checkStatus_resume_def call_onProgress_def reject_def resolve_def
      setTimeout_def checkStatus_def
      split: if_splits sum.splits option.splits prod.splits list.splits)

lemma poll_run_params:
  "poll_run p es = Some p' \<Longrightarrow>
     jobId p' = jobId p \<and> onProgress p' = onProgress p \<and> intervalMs p' = intervalMs p"
proof (induction es arbitrary: p)
  case Nil
  then show ?case by simp
next
  case (Cons e es)
  then obtain q where q: "poll_step p e = Some q" and r: "poll_run q es = Some p'"
    by (auto split: option.splits)
  from Cons.IH [OF r] poll_step_params [OF q] show ?case by simp
qed

lemma poll_reachable:
  assumes "poll_run (pollJobStatus j cb iv) es = Some p"
  shows "poll_phase p" and "jobId p = j" and "onProgress p = cb"
    and "intervalMs p = (case iv of None \<Rightarrow> 2000 | Some d \<Rightarrow> d)"
  using poll_phase_run [OF poll_phase_init assms] poll_run_params [OF assms]
  by (simp_all add: pollJobStatus_def checkStatus_def)

lemma pollJobStatus_single_read:
  "poll_run (pollJobStatus j cb iv) es = Some p \<Longrightarrow>
     in_flight p \<le> 1 \<and> in_flight p + length (timers p) \<le> 1"
  using poll_reachable(1) [of j cb iv es p] by (auto simp: poll_phase_def)

lemma page_cleared_step:
  "pollInterval g = None \<Longrightarrow> page_step g e = Some g' \<Longrightarrow>
     page_reads g' = page_reads g \<and> pollInterval g' = None"
  by (cases e)
    (auto simp: pollStatus_resume_def clearInterval_def show_toast_def
      split: if_splits sum.splits Status.splits)

lemma page_cleared_run:
  "pollInterval g = None \<Longrightarrow> page_run g es = Some g' \<Longrightarrow>
     page_reads g' = page_reads g \<and> pollInterval g' = None"
proof (induction es arbitrary: g)
  case Nil
  then show ?case by simp
next
  case (Cons e es)
  then obtain q where q: "page_step g e = Some q" and r: "page_run q es = Some g'"
    by (auto split: option.splits)
  from page_cleared_step [OF Cons.prems(1) q] Cons.IH [OF _ r] show ?case by simp
qed

lemma poll_run_append:
  "poll_run p (es @ es') = (case poll_run p es of None \<Rightarrow> None | Some p' \<Rightarrow> poll_run p' es')"
  by (induction es arbitrary: p) (auto split: option.splits)

lemma page_run_append:
  "page_run g (es @ es') = (case page_run g es of None \<Rightarrow> None | Some g' \<Rightarrow> page_run g' es')"
  by (induction es arbitrary: g) (auto split: option.splits)

lemma poll_settled_run:
  assumes "poll_phase p" and "outcome p \<noteq> None" and "poll_run p es = Some p'"
  shows "p' = p"
  using assms poll_quiescent [of p es p'] by (auto simp: poll_phase_def)

lemma poll_pending:
  assumes "poll_phase p" and "poll_step p (Returned r) = Some p'"
  shows "in_flight p = 1 \<and> timers p = [] \<and> outcome p = None \<and>
         p' = checkStatus_resume r (p\<lparr>in_flight := 0\<rparr>)"
  using assms by (auto simp: poll_phase_def split: if_splits)

lemma page_failure_step:
  assumes "page_step g (PageReturned (Inl e)) = Some g'"
  shows "page_error g' = Some (case e of Error m \<Rightarrow> m | NotAnError _ \<Rightarrow> ''Failed to get status'') \<and>
         pollInterval g' = None \<and> page_reads g' = page_reads g"
  using assms
  by (auto simp: pollStatus_resume_def clearInterval_def show_toast_def split: if_splits)




lemma poll_step_timers:
  "set (timers p) \<subseteq> {intervalMs p} \<Longrightarrow> poll_step p e = Some p' \<Longrightarrow>
     set (timers p') \<subseteq> {intervalMs p'}"
  by (cases e)
    (auto simp: checkStatus_resume_def call_onProgress_def reject_def resolve_def
      setTimeout_def checkStatus_def
      split: if_splits sum.splits option.splits prod.splits list.splits)

lemma poll_run_timers:
  "set (timers p) \<subseteq> {intervalMs p} \<Longrightarrow> poll_run p es = Some p' \<Longrightarrow>
     set (timers p') \<subseteq> {intervalMs p'}"
proof (induction es arbitrary: p)
  case Nil
  then show ?case by simp
next
  case (Cons e es)
  then obtain q where q: "poll_step p e = Some q" and r: "poll_run q es = Some p'"
    by (auto split: option.splits)
  from Cons.IH [OF poll_step_timers [OF Cons.prems(1) q] r] show ?case .
qed

lemma poll_continue:
  assumes "poll_phase p" and "poll_step p (Returned r) = Some p'" and "outcome p' = None"
  shows "timers p' = [intervalMs p] \<and> in_flight p' = 0 \<and> reads p' = reads p"
  using poll_pending [OF assms(1,2)] assms(3)
  by (auto simp: checkStatus_resume_def call_onProgress_def reject_def resolve_def
      setTimeout_def split: if_splits sum.splits option.splits prod.splits)

text \<open>
  The cleanup of the effect of the page \<open>Generate\<close>: in whatever state \<open>g\<close> the page is
  unmounted, the cleanup is executed without a failure and clears the interval timer;
  whatever happens afterwards (\<open>es'\<close>: the pending reads return), no further status
  read is issued and the timer stays cleared.
\<close>

lemma Generate_cleanup_stops_polling:
  assumes "page_run (Generate env jobIdParam) es = Some g"
    and "page_run (Generate env jobIdParam) (es @ Unmount # es') = Some g'"
  shows "page_run (Generate env jobIdParam) (es @ [Unmount]) = Some (clearInterval g) \<and>
         page_reads g' = page_reads g \<and> pollInterval g' = None"
proof -
  have stop: "page_run (Generate env jobIdParam) (es @ [Unmount]) = Some (clearInterval g)"
    using assms(1) by (simp add: page_run_append)
  have rest: "page_run (clearInterval g) es' = Some g'"
    using assms by (simp add: page_run_append)
  have "pollInterval (clearInterval g) = None"
    by (simp add: clearInterval_def)
  from page_cleared_run [OF this rest]
  have "page_reads g' = page_reads g \<and> pollInterval g' = None"
    by (simp add: clearInterval_def)
  with stop show ?thesis by simp
qed

text \<open>
  The default interval of \<open>pollJobStatus\<close>: called without an interval, the loop has the
  interval 2000 in every state it reaches, and every scheduled timeout has the delay
  2000; when a status read returns and the loop goes on, the timeout of 2000 is set at
  that moment, no read is issued before it fires, and its firing issues the next read of
  the job. (The delays are the arguments of \<open>setTimeout\<close>; elapsed time is not part of
  the model.)
\<close>

lemma pollJobStatus_default_interval:
  assumes "poll_run (pollJobStatus j cb None) es = Some p"
  shows "intervalMs p = 2000 \<and> (\<forall>d \<in> set (timers p). d = 2000) \<and>
    (\<forall>r p'. poll_step p (Returned r) = Some p' \<and> outcome p' = None \<longrightarrow>
       timers p' = [2000] \<and> in_flight p' = 0 \<and> reads p' = reads p \<and>
       map_option reads (poll_step p' TimerFired) = Some (reads p @ [j]))"
proof -
  note r = poll_reachable [OF assms]
  have i: "intervalMs p = 2000" using r(4) by simp
  have "set (timers (pollJobStatus j cb None)) \<subseteq> {intervalMs (pollJobStatus j cb None)}"
    by (simp add: pollJobStatus_def checkStatus_def)
  from poll_run_timers [OF this assms] i have t: "\<forall>d \<in> set (timers p). d = 2000"
    by auto
  have c: "timers p' = [2000] \<and> in_flight p' = 0 \<and> reads p' = reads p \<and>
       map_option reads (poll_step p' TimerFired) = Some (reads p @ [j])"
    if "poll_step p (Returned r) = Some p'" and "outcome p' = None" for r p'
  proof -
    note k = poll_continue [OF r(1) that]
    have "jobId p' = j" using poll_step_params [OF that(1)] r(2) by simp
    with k i show ?thesis by (simp add: checkStatus_def)
  qed
  from i t c show ?thesis by blast
qed

section \<open>The claims\<close>

subsection \<open>C1: no overlapping polls\<close>

text \<open>
  \<open>pollJobStatus\<close> keeps the property: in every state that a run reaches, at most one
  status read is pending, and no timeout is scheduled while one is (lemma
  \<open>pollJobStatus_single_read\<close> above): the next read is issued by the timeout, and the
  timeout is set only when the previous read has returned.
\<close>

text \<open>
  C1, on the page \<open>Generate\<close>: the interval timer calls \<open>pollStatus\<close> on every tick, and
  nothing looks at whether the previous read has returned. When the first read is still
  pending at the first tick, a second read is issued: two reads of the same job are
  pending at once.
\<close>

theorem Generate_overlapping_reads:
  "map_option page_in_flight (page_run (Generate None (Some ''job-1'')) [Tick]) = Some 2 \<and>
   map_option page_reads (page_run (Generate None (Some ''job-1'')) [Tick])
     = Some [''job-1'', ''job-1'']"
  by (simp add: Generate_def pollStatus_def or_else_def Let_def)

subsection \<open>C2: cancellation\<close>

text \<open>
  The page \<open>Generate\<close> keeps the property: the cleanup of its effect clears the interval
  timer, and no read is issued afterwards (lemma \<open>Generate_cleanup_stops_polling\<close>
  above).
\<close>

text \<open>
  C2, on \<open>pollJobStatus\<close>: the loop cannot be stopped. It keeps no handle of the timeout
  it schedules and takes no abort signal. After the first read has returned a status
  that is not terminal, the caller is torn down, and the timeout still fires and issues
  a second read.
\<close>

theorem pollJobStatus_reads_after_teardown:
  "map_option reads (poll_run (pollJobStatus ''job-1'' None None)
      [Returned (Inr (example_status Analyzing None)), Teardown]) = Some [''job-1''] \<and>
   map_option reads (poll_run (pollJobStatus ''job-1'' None None)
      [Returned (Inr (example_status Analyzing None)), Teardown, TimerFired])
     = Some [''job-1'', ''job-1'']"
  by (simp add: pollJobStatus_def checkStatus_def checkStatus_resume_def call_onProgress_def
      setTimeout_def example_status_def)

subsection \<open>C3: termination on a terminal status\<close>

text \<open>
  C3 as stated fails when the progress callback throws: the callback is invoked inside
  the \<open>try\<close>, before the status is looked at, so on a status \<open>completed\<close> the loop
  rejects with the value the callback threw instead of resolving.
\<close>

theorem pollJobStatus_completed_callback_throws:
  "map_option outcome (poll_run (pollJobStatus ''job-1'' (Some throwing_callback) None)
      [Returned (Inr (example_status Completed None))])
    = Some (Some (Inl (Error ''callback failed'')))"
  by (simp add: pollJobStatus_def checkStatus_def checkStatus_resume_def call_onProgress_def
      reject_def example_status_def throwing_callback_def)

text \<open>
  C3, amended. Let the loop have been started for any job id, callback and interval, and
  let \<open>p\<close> be any state it has reached in which a status read returns the status object
  \<open>st\<close>; \<open>p''\<close> is any state reached afterwards. The promise is pending before. If the
  callback throws at \<open>st\<close>, the loop rejects with the thrown value and issues no further
  read. Otherwise let \<open>st'\<close> be the status object as the loop tests it: \<open>st\<close> itself when
  there is no callback, and \<open>st\<close> as the callback left it when the callback returns
  normally (the same as \<open>st\<close> for a callback that does not write to it). Then:
  \<^item> when the status of \<open>st'\<close> is \<open>completed\<close>, the loop resolves with \<open>st'\<close> and issues
    no further read;
  \<^item> when it is \<open>failed\<close>, the loop rejects with an \<open>Error\<close> whose message is the error
    description of \<open>st'\<close> (\<open>Job failed\<close> when it has none or an empty one) and issues no
    further read;
  \<^item> on any other status the promise stays pending, no read is issued until the timeout
    of \<open>intervalMs\<close> fires, and the timeout issues the next read of the same job.
\<close>

theorem pollJobStatus_terminal_status:
  assumes run: "poll_run (pollJobStatus j cb iv) es = Some p"
    and ret: "poll_step p (Returned (Inr st)) = Some p'"
    and after: "poll_run p' es' = Some p''"
  shows "outcome p = None \<and>
    (\<forall>f e. cb = Some f \<and> f st = Inl e \<longrightarrow> outcome p' = Some (Inl e) \<and> reads p'' = reads p) \<and>
    (\<forall>st'. (cb = None \<and> st' = st) \<or> (\<exists>f. cb = Some f \<and> f st = Inr st') \<longrightarrow>
       (status st' = Completed \<longrightarrow> outcome p' = Some (Inr st') \<and> reads p'' = reads p) \<and>
       (status st' = Failed \<longrightarrow>
          outcome p' = Some (Inl (Error (or_else (error st') ''Job failed''))) \<and>
          (\<forall>d. error st' = Some d \<and> d \<noteq> [] \<longrightarrow> outcome p' = Some (Inl (Error d))) \<and>
          reads p'' = reads p) \<and>
       (status st' \<noteq> Completed \<and> status st' \<noteq> Failed \<longrightarrow>
          outcome p' = None \<and> reads p' = reads p \<and> timers p' = [intervalMs p] \<and>
          map_option reads (poll_step p' TimerFired) = Some (reads p @ [j])))"
proof -
  note r = poll_reachable [OF run]
  note pend = poll_pending [OF r(1) ret]
  let ?q = "p\<lparr>in_flight := 0\<rparr>"
  have ph': "poll_phase p'"
    using poll_phase_step [OF r(1) ret] .
  have settled: "outcome p' \<noteq> None \<Longrightarrow> p'' = p'"
    using poll_settled_run [OF ph' _ after] by simp
  have throws: "outcome p' = Some (Inl e) \<and> reads p' = reads p"
    if "cb = Some f" and "f st = Inl e" for f e
    using that pend r(3) by (simp add: checkStatus_resume_def call_onProgress_def reject_def)
  have call: "call_onProgress st ?q =
      (Inr st', ?q\<lparr>calls := calls p @ (case cb of None \<Rightarrow> [] | Some _ \<Rightarrow> [st])\<rparr>)"
    if "(cb = None \<and> st' = st) \<or> (\<exists>f. cb = Some f \<and> f st = Inr st')" for st'
    using that r(3) by (auto simp: call_onProgress_def split: option.splits)
  have c: "outcome p' = Some (Inr st') \<and> reads p' = reads p"
    if "(cb = None \<and> st' = st) \<or> (\<exists>f. cb = Some f \<and> f st = Inr st')"
      and "status st' = Completed" for st'
    using pend call [OF that(1)] that(2) by (simp add: checkStatus_resume_def resolve_def)
  have f: "outcome p' = Some (Inl (Error (or_else (error st') ''Job failed''))) \<and>
      reads p' = reads p"
    if "(cb = None \<and> st' = st) \<or> (\<exists>f. cb = Some f \<and> f st = Inr st')"
      and "status st' = Failed" for st'
    using pend call [OF that(1)] that(2) by (simp add: checkStatus_resume_def reject_def)
  have n: "outcome p' = None \<and> reads p' = reads p \<and> timers p' = [intervalMs p] \<and>
      map_option reads (poll_step p' TimerFired) = Some (reads p @ [j])"
    if "(cb = None \<and> st' = st) \<or> (\<exists>f. cb = Some f \<and> f st = Inr st')"
      and "status st' \<noteq> Completed" and "status st' \<noteq> Failed" for st'
    using pend call [OF that(1)] that(2,3) r(2)
    by (simp add: checkStatus_resume_def setTimeout_def checkStatus_def)
  have 1: "outcome p = None" using pend by simp
  have 2: "\<forall>f e. cb = Some f \<and> f st = Inl e \<longrightarrow> outcome p' = Some (Inl e) \<and> reads p'' = reads p"
    using throws settled by fastforce
  have 3: "status st' = Completed \<longrightarrow> outcome p' = Some (Inr st') \<and> reads p'' = reads p"
    if "(cb = None \<and> st' = st) \<or> (\<exists>f. cb = Some f \<and> f st = Inr st')" for st'
    using c [OF that] settled by fastforce
  have 4: "status st' = Failed \<longrightarrow>
          outcome p' = Some (Inl (Error (or_else (error st') ''Job failed''))) \<and>
          (\<forall>d. error st' = Some d \<and> d \<noteq> [] \<longrightarrow> outcome p' = Some (Inl (Error d))) \<and>
          reads p'' = reads p"
    if "(cb = None \<and> st' = st) \<or> (\<exists>f. cb = Some f \<and> f st = Inr st')" for st'
    using f [OF that] settled by (fastforce simp: or_else_def)
  have 5: "(status st' = Completed \<longrightarrow> outcome p' = Some (Inr st') \<and> reads p'' = reads p) \<and>
       (status st' = Failed \<longrightarrow>
          outcome p' = Some (Inl (Error (or_else (error st') ''Job failed''))) \<and>
          (\<forall>d. error st' = Some d \<and> d \<noteq> [] \<longrightarrow> outcome p' = Some (Inl (Error d))) \<and>
          reads p'' = reads p) \<and>
       (status st' \<noteq> Completed \<and> status st' \<noteq> Failed \<longrightarrow>
          outcome p' = None \<and> reads p' = reads p \<and> timers p' = [intervalMs p] \<and>
          map_option reads (poll_step p' TimerFired) = Some (reads p @ [j]))"
    if "(cb = None \<and> st' = st) \<or> (\<exists>f. cb = Some f \<and> f st = Inr st')" for st'
    using 3 [OF that] 4 [OF that] n [OF that] by blast
  from 1 2 5 show ?thesis by blast
qed

text \<open>
  Witness: the first read of \<open>job-1\<close> returns \<open>completed\<close> with a callback that leaves
  the object as it is, \<open>failed\<close> with a description, \<open>roasting\<close>, \<open>roasting\<close> with a
  callback that throws, and \<open>completed\<close> with a callback that writes \<open>analyzing\<close> to the
  status (the loop then goes on polling).
\<close>

theorem pollJobStatus_terminal_status_witness:
  "outcome (the (poll_step (pollJobStatus ''job-1'' (Some quiet_callback) None)
      (Returned (Inr (example_status Completed None)))))
     = Some (Inr (example_status Completed None)) \<and>
   outcome (the (poll_step (pollJobStatus ''job-1'' None None)
      (Returned (Inr (example_status Failed (Some ''parse error''))))))
     = Some (Inl (Error ''parse error'')) \<and>
   map_option reads (poll_step (the (poll_step (pollJobStatus ''job-1'' None None)
      (Returned (Inr (example_status Roasting None))))) TimerFired)
     = Some [''job-1'', ''job-1''] \<and>
   outcome (the (poll_step (pollJobStatus ''job-1'' (Some throwing_callback) None)
      (Returned (Inr (example_status Roasting None)))))
     = Some (Inl (Error ''callback failed'')) \<and>
   timers (the (poll_step (pollJobStatus ''job-1'' (Some rewriting_callback) None)
      (Returned (Inr (example_status Completed None)))))
     = [2000]"
proof -
  define q where "q cb r = the (poll_step (pollJobStatus ''job-1'' cb None) (Returned r))" for cb r
  have run: "poll_run (pollJobStatus ''job-1'' cb None) [] = Some (pollJobStatus ''job-1'' cb None)"
    for cb by simp
  have ret: "poll_step (pollJobStatus ''job-1'' cb None) (Returned r) = Some (q cb r)" for cb r
    by (simp add: q_def pollJobStatus_def checkStatus_def)
  have after: "poll_run (q cb r) [] = Some (q cb r)" for cb r by simp
  have reads0: "reads (pollJobStatus ''job-1'' cb None) = [''job-1'']" for cb
    by (simp add: pollJobStatus_def checkStatus_def)
  have iv0: "intervalMs (pollJobStatus ''job-1'' cb None) = 2000" for cb
    by (simp add: pollJobStatus_def checkStatus_def)
  have a: "outcome (q (Some quiet_callback) (Inr (example_status Completed None)))
     = Some (Inr (example_status Completed None))"
    using pollJobStatus_terminal_status [OF run ret after,
        of "Some quiet_callback" "example_status Completed None"]
    by (simp add: quiet_callback_def example_status_def)
  have b: "outcome (q None (Inr (example_status Failed (Some ''parse error''))))
     = Some (Inl (Error ''parse error''))"
    using pollJobStatus_terminal_status [OF run ret after,
        of None "example_status Failed (Some ''parse error'')"]
    by (simp add: example_status_def or_else_def)
  have c: "map_option reads (poll_step (q None (Inr (example_status Roasting None))) TimerFired)
     = Some [''job-1'', ''job-1'']"
    using pollJobStatus_terminal_status [OF run ret after,
        of None "example_status Roasting None"] reads0 [of None]
    by (simp add: example_status_def del: poll_step.simps)
  have d: "outcome (q (Some throwing_callback) (Inr (example_status Roasting None)))
     = Some (Inl (Error ''callback failed''))"
    using pollJobStatus_terminal_status [OF run ret after,
        of "Some throwing_callback" "example_status Roasting None"]
    by (simp add: throwing_callback_def)
  have e: "timers (q (Some rewriting_callback) (Inr (example_status Completed None))) = [2000]"
    using pollJobStatus_terminal_status [OF run ret after,
        of "Some rewriting_callback" "example_status Completed None"]
      iv0 [of "Some rewriting_callback"]
    by (simp add: rewriting_callback_def example_status_def del: poll_step.simps)
  from a b c d e show ?thesis unfolding q_def by blast
qed

subsection \<open>C4: a failed read ends the polling\<close>

text \<open>
  C4. In \<open>pollJobStatus\<close>, when a status read fails with any value \<open>e\<close> in any state the
  loop has reached, the promise, pending until then, is rejected with \<open>e\<close> in the same
  step, no timeout is scheduled and no read is pending, and whatever happens afterwards
  no further read is issued and the outcome stays. On the page \<open>Generate\<close>, when a status
  read fails with \<open>e\<close>, the message of \<open>e\<close> is recorded as the error of the page, the
  interval timer is cleared in the same step, and no further read is issued afterwards.
  Nothing in either loop looks at what kind of failure \<open>e\<close> is.
\<close>

theorem read_failure_stops_polling:
  "(poll_run (pollJobStatus j cb iv) es = Some p \<and> poll_step p (Returned (Inl e)) = Some p' \<and>
      poll_run p' es' = Some p''
    \<longrightarrow> outcome p = None \<and> outcome p' = Some (Inl e) \<and> in_flight p' = 0 \<and> timers p' = [] \<and>
        reads p'' = reads p \<and> outcome p'' = Some (Inl e)) \<and>
   (page_run (Generate env jobIdParam) gs = Some g \<and> page_step g (PageReturned (Inl e)) = Some g' \<and>
      page_run g' gs' = Some g''
    \<longrightarrow> page_error g' = Some (case e of Error m \<Rightarrow> m | NotAnError _ \<Rightarrow> ''Failed to get status'') \<and>
        pollInterval g' = None \<and> page_reads g'' = page_reads g \<and> pollInterval g'' = None)"
proof (intro conjI impI)
  assume a: "poll_run (pollJobStatus j cb iv) es = Some p \<and>
    poll_step p (Returned (Inl e)) = Some p' \<and> poll_run p' es' = Some p''"
  then have run: "poll_run (pollJobStatus j cb iv) es = Some p"
    and ret: "poll_step p (Returned (Inl e)) = Some p'"
    and after: "poll_run p' es' = Some p''" by simp_all
  note r = poll_reachable [OF run]
  note pend = poll_pending [OF r(1) ret]
  have p': "outcome p' = Some (Inl e) \<and> in_flight p' = 0 \<and> timers p' = [] \<and> reads p' = reads p"
    using pend by (simp add: checkStatus_resume_def reject_def)
  have "p'' = p'"
    using poll_settled_run [OF poll_phase_step [OF r(1) ret] _ after] p' by simp
  with p' pend
  show "outcome p = None" and "outcome p' = Some (Inl e)" and "in_flight p' = 0"
    and "timers p' = []" and "reads p'' = reads p" and "outcome p'' = Some (Inl e)"
    by simp_all
next
  assume a: "page_run (Generate env jobIdParam) gs = Some g \<and>
    page_step g (PageReturned (Inl e)) = Some g' \<and> page_run g' gs' = Some g''"
  then have ret: "page_step g (PageReturned (Inl e)) = Some g'"
    and after: "page_run g' gs' = Some g''" by simp_all
  note f = page_failure_step [OF ret]
  from f have c: "pollInterval g' = None" by simp
  note rest = page_cleared_run [OF c after]
  from f rest
  show "page_error g' = Some (case e of Error m \<Rightarrow> m | NotAnError _ \<Rightarrow> ''Failed to get status'')"
    and "pollInterval g' = None" and "page_reads g'' = page_reads g" and "pollInterval g'' = None"
    by simp_all
qed

text \<open>
  Witness: the first read of \<open>job-1\<close> fails with a network error, in both loops.
\<close>

theorem read_failure_stops_polling_witness:
  "outcome (the (poll_run (pollJobStatus ''job-1'' None None)
      [Returned (Inl (Error ''Failed to fetch'')), Teardown]))
     = Some (Inl (Error ''Failed to fetch'')) \<and>
   reads (the (poll_run (pollJobStatus ''job-1'' None None)
      [Returned (Inl (Error ''Failed to fetch'')), Teardown])) = [''job-1''] \<and>
   page_error (the (page_run (Generate None (Some ''job-1''))
      [PageReturned (Inl (Error ''Failed to fetch''))])) = Some ''Failed to fetch'' \<and>
   page_reads (the (page_run (Generate None (Some ''job-1''))
      [PageReturned (Inl (Error ''Failed to fetch'')), Unmount])) = [''job-1'']"
proof -
  let ?e = "Error ''Failed to fetch''"
  let ?p0 = "pollJobStatus ''job-1'' None None"
  let ?g0 = "Generate None (Some ''job-1'')"
  define p' where "p' = the (poll_step ?p0 (Returned (Inl ?e)))"
  define g' where "g' = the (page_step ?g0 (PageReturned (Inl ?e)))"
  have run: "poll_run ?p0 [] = Some ?p0" by simp
  have ret: "poll_step ?p0 (Returned (Inl ?e)) = Some p'"
    by (simp add: p'_def pollJobStatus_def checkStatus_def)
  have after: "poll_run p' [Teardown] = Some p'" by simp
  have grun: "page_run ?g0 [] = Some ?g0" by simp
  have gret: "page_step ?g0 (PageReturned (Inl ?e)) = Some g'"
    by (simp add: g'_def Generate_def pollStatus_def or_else_def)
  have gafter: "page_run g' [Unmount] = Some (clearInterval g')" by simp
  have r0: "reads ?p0 = [''job-1'']" by (simp add: pollJobStatus_def checkStatus_def)
  have g0: "page_reads ?g0 = [''job-1'']" by (simp add: Generate_def pollStatus_def or_else_def)
  have whole: "poll_run ?p0 [Returned (Inl ?e), Teardown] = Some p'"
    using ret by simp
  have gwhole1: "page_run ?g0 [PageReturned (Inl ?e)] = Some g'"
    using gret by simp
  have gwhole2: "page_run ?g0 [PageReturned (Inl ?e), Unmount] = Some (clearInterval g')"
    using gret by simp
  from read_failure_stops_polling [of "''job-1''" None None "[]" ?p0 ?e p' "[Teardown]" p'
      None "Some ''job-1''" "[]" ?g0 g' "[Unmount]" "clearInterval g'"]
    run ret after grun gret gafter r0 g0
  have "outcome p' = Some (Inl ?e) \<and> reads p' = [''job-1''] \<and>
        page_error g' = Some ''Failed to fetch'' \<and> page_reads (clearInterval g') = [''job-1'']"
    by simp
  then show ?thesis
    unfolding whole gwhole1 gwhole2 by simp
qed

subsection \<open>C5: the progress callback\<close>



subsection \<open>C6: validation at submission\<close>

text \<open>Facts about the upload section and the submit endpoint.\<close>

lemma handler_Index:
  assumes "handler = handleFileInput \<or> handler = handleDrop"
  shows "handler (Some [doc]) Index =
     (if file_type doc = ''application/pdf'' \<or> endsWith (file_name doc) ''.pdf''
      then Index\<lparr>uploadedFile := Some doc,
                 upload_toasts := [toast_success ''Resume uploaded successfully!'']\<rparr>
      else Index\<lparr>upload_toasts := [toast_error ''Please upload a PDF file'']\<rparr>)"
  using assms by (auto simp: handleFileInput_def handleDrop_def Index_def)

lemma submit_document_rejects:
  assumes "\<not> supported doc \<or> size_ceiling < file_size doc"
  shows "\<exists>d. submit_document supported new_id (uploadResume_request env doc bg) store
           = (NotOk (Some d), store)"
  using assms by (auto simp: submit_document_def uploadResume_request_def)

lemma handleGenerateRoast_no_file:
  assumes "uploadedFile u = None"
  shows "handleGenerateRoast env fetch u b =
     (u\<lparr>upload_toasts := upload_toasts u @ [toast_error ''No file uploaded'']\<rparr>, b)"
  using assms by (simp add: handleGenerateRoast_def)

lemma handleGenerateRoast_rejected:
  assumes "uploadedFile u = Some doc"
    and "fetch (uploadResume_request env doc (Some (backgroundVideo u))) b = (NotOk (Some d), b')"
  shows "handleGenerateRoast env fetch u b =
     (u\<lparr>isUploading := False,
        upload_toasts := upload_toasts u @ [toast_error (or_else (Some d) ''Failed to upload resume'')]\<rparr>, b')"
  using assms by (simp add: handleGenerateRoast_def uploadResume_def)

text \<open>
  C6. A user hands a document to the upload section of a fresh page (by the file input
  or by a drop) and, when the section takes it, may choose a background and presses the
  generate button, against the submit endpoint. If the document is not a PDF for the section (neither its type nor
  its name says so), or is not of a format the endpoint supports, or exceeds the size
  ceiling of 10 MB, then the job store is unchanged (no job is created), the page does
  not navigate to a job (no job id is produced) and the last toast is an error. The
  section itself rejects only by type and name; a document of an unsupported format or
  above the ceiling that passes the section is rejected by the endpoint, for every
  background, with the job store unchanged.
\<close>

theorem submission_rejects_invalid_document:
  assumes h: "handler = handleFileInput \<or> handler = handleDrop"
    and bad: "\<not> (file_type doc = ''application/pdf'' \<or> endsWith (file_name doc) ''.pdf'') \<or>
              \<not> supported doc \<or> size_ceiling < file_size doc"
    and flow: "submit_flow handler env supported new_id doc background store = (u, store')"
  shows "store' = store \<and> upload_navigations u = [] \<and>
         upload_toasts u \<noteq> [] \<and> is_error_toast (last (upload_toasts u)) \<and>
         (\<not> supported doc \<or> size_ceiling < file_size doc \<longrightarrow>
            (\<forall>bg. \<exists>d. submit_document supported new_id (uploadResume_request env doc bg) store
                 = (NotOk (Some d), store)))"
proof -
  let ?pdf = "file_type doc = ''application/pdf'' \<or> endsWith (file_name doc) ''.pdf''"
  let ?u1 = "handler (Some [doc]) Index"
  let ?u2 = "case background of None \<Rightarrow> ?u1 | Some bg \<Rightarrow> handleBackgroundChange bg ?u1"
  have server: "\<not> supported doc \<or> size_ceiling < file_size doc \<longrightarrow>
      (\<forall>bg. \<exists>d. submit_document supported new_id (uploadResume_request env doc bg) store
           = (NotOk (Some d), store))"
    using submit_document_rejects [of supported doc new_id env _ store] by blast
  have main: "store' = store \<and> upload_navigations u = [] \<and>
         upload_toasts u \<noteq> [] \<and> is_error_toast (last (upload_toasts u))"
  proof (cases ?pdf)
    case False
    then have u1: "?u1 = Index\<lparr>upload_toasts := [toast_error ''Please upload a PDF file'']\<rparr>"
      using handler_Index [OF h, of doc] by simp
    then have "uploadedFile ?u1 = None" by (simp add: Index_def)
    with flow have "u = ?u1" and "store' = store"
      by (simp_all add: submit_flow_def Let_def)
    with u1 show ?thesis by (simp add: Index_def)
  next
    case True
    with bad have inv: "\<not> supported doc \<or> size_ceiling < file_size doc" by blast
    from True have u1: "uploadedFile ?u1 = Some doc"
      using handler_Index [OF h, of doc] by simp
    from True have u2: "uploadedFile ?u2 = Some doc" "upload_navigations ?u2 = []"
      using handler_Index [OF h, of doc]
      by (auto simp: Index_def handleBackgroundChange_def split: option.splits)
    have flow': "handleGenerateRoast env (submit_document supported new_id) ?u2 store = (u, store')"
      using flow u1 by (simp add: submit_flow_def Let_def)
    from inv submit_document_rejects [of supported doc new_id env "Some (backgroundVideo ?u2)" store]
    obtain d where d: "submit_document supported new_id
        (uploadResume_request env doc (Some (backgroundVideo ?u2))) store = (NotOk (Some d), store)"
      by blast
    from flow' handleGenerateRoast_rejected
      [where fetch = "submit_document supported new_id" and env = env and b = store, OF u2(1) d]
    have "u = ?u2\<lparr>isUploading := False,
        upload_toasts := upload_toasts ?u2 @ [toast_error (or_else (Some d) ''Failed to upload resume'')]\<rparr>"
      and "store' = store" by simp_all
    with u2 show ?thesis by simp
  qed
  from main server show ?thesis by blast
qed

text \<open>
  Witness: a PDF of 20 MB through the file input, rejected by the endpoint, and a Word
  document dropped, rejected by the section.
\<close>

theorem submission_rejects_invalid_document_witness:
  "snd (submit_flow handleFileInput None (\<lambda>f. True) (\<lambda>s. ''job-1'')
          \<lparr>file_name = ''resume.pdf'', file_type = ''application/pdf'', file_size = 20 * 1024 * 1024\<rparr>
          None []) = [] \<and>
   upload_navigations (fst (submit_flow handleFileInput None (\<lambda>f. True) (\<lambda>s. ''job-1'')
          \<lparr>file_name = ''resume.pdf'', file_type = ''application/pdf'', file_size = 20 * 1024 * 1024\<rparr>
          None [])) = [] \<and>
   snd (submit_flow handleDrop None (\<lambda>f. True) (\<lambda>s. ''job-1'')
          \<lparr>file_name = ''resume.docx'', file_type = ''application/msword'', file_size = 1000\<rparr>
          (Some ''minecraft'') []) = [] \<and>
   upload_navigations (fst (submit_flow handleDrop None (\<lambda>f. True) (\<lambda>s. ''job-1'')
          \<lparr>file_name = ''resume.docx'', file_type = ''application/msword'', file_size = 1000\<rparr>
          (Some ''minecraft'') [])) = []"
proof -
  let ?big = "\<lparr>file_name = ''resume.pdf'', file_type = ''application/pdf'', file_size = 20 * 1024 * 1024\<rparr>"
  let ?doc = "\<lparr>file_name = ''resume.docx'', file_type = ''application/msword'', file_size = 1000\<rparr>"
  let ?f1 = "submit_flow handleFileInput None (\<lambda>f. True) (\<lambda>s. ''job-1'') ?big None []"
  let ?f2 = "submit_flow handleDrop None (\<lambda>f. True) (\<lambda>s. ''job-1'') ?doc (Some ''minecraft'') []"
  have big: "size_ceiling < file_size ?big" by (simp add: size_ceiling_def)
  have doc: "\<not> (file_type ?doc = ''application/pdf'' \<or> endsWith (file_name ?doc) ''.pdf'')"
    by (simp add: endsWith_def)
  have 1: "?f1 = (fst ?f1, snd ?f1)" by simp
  have 2: "?f2 = (fst ?f2, snd ?f2)" by simp
  from submission_rejects_invalid_document [OF _ _ 1] big
  have a: "snd ?f1 = [] \<and> upload_navigations (fst ?f1) = []" by blast
  from submission_rejects_invalid_document [OF _ _ 2] doc
  have b: "snd ?f2 = [] \<and> upload_navigations (fst ?f2) = []" by blast
  from a b show ?thesis by blast
qed

subsection \<open>C7: the default interval\<close>

text \<open>
  \<open>pollJobStatus\<close> keeps the property: without an interval argument it sets a timeout of
  2000 when a read has returned, and the next read starts when that timeout fires (lemma
  \<open>pollJobStatus_default_interval\<close> above).
\<close>


subsection \<open>C8: the default background\<close>

text \<open>
  C8. Called without a background, \<open>uploadResume\<close> sends exactly one request to the
  backend, whatever the backend answers: the \<open>POST\<close> to \<open>/api/upload\<close> whose form holds
  the file and the field \<open>background_video\<close> with the value \<open>subway_surfer\<close>.
  \<open>subway_surfer\<close> is one of the background choices that the upload section offers.
\<close>

theorem uploadResume_default_background:
  "snd (uploadResume env (recording_fetch reply) file None received)
     = received @
       [\<lparr>url = API_BASE_URL env @ ''/api/upload'', http_method = ''POST'',
         form = [(''file'', FileField file),
                 (''background_video'', TextField ''subway_surfer'')]\<rparr>] \<and>
   ''subway_surfer'' \<in> set background_choices"
  by (simp add: uploadResume_def recording_fetch_def uploadResume_request_def
      background_choices_def split: upload_reply.splits)

subsection \<open>C9: the video URL\<close>

text \<open>
  C9. For every job id, \<open>getVideoUrl\<close> is the base URL of the API, then \<open>/api/video/\<close>,
  then the job id; with the environment variable unset the base is
  \<open>http://localhost:8000\<close>. It is a function of the environment variable and the job id
  alone (no status and no reply of the backend is an argument, and there is no error
  result), and different job ids give different URLs.
\<close>

theorem getVideoUrl_concatenation:
  "getVideoUrl env j = API_BASE_URL env @ ''/api/video/'' @ j \<and>
   getVideoUrl None j = ''http://localhost:8000/api/video/'' @ j \<and>
   (getVideoUrl env j = getVideoUrl env j') = (j = j')"
  by (simp add: getVideoUrl_def API_BASE_URL_def or_else_def)

subsection \<open>C10: a backgrounds listing without the field\<close>

text \<open>
  C10 as stated fails on the body \<open>null\<close>: the request succeeds, the body parses and has
  no field \<open>backgrounds\<close>, and \<open>data.backgrounds\<close> throws a \<open>TypeError\<close>, with which the
  call rejects.
\<close>

theorem getAvailableBackgrounds_null_body:
  "getAvailableBackgrounds None (reply_with JNull)
     = Inl (Error (''Cannot read properties of null (reading '' @ [CHR 0x27] @
         ''backgrounds'' @ [CHR 0x27] @ '')''))"
  by (simp add: getAvailableBackgrounds_def reply_with_def)

text \<open>
  C10, amended. When the request for the backgrounds succeeds (\<open>response.ok\<close>) and the
  body parses to a JSON value other than \<open>null\<close> that has no member \<open>backgrounds\<close> (an
  object without that key, or an array, a string, a number or a boolean),
  \<open>getAvailableBackgrounds\<close> returns the empty list.
\<close>

theorem getAvailableBackgrounds_missing_field:
  assumes "fetch \<lparr>url = API_BASE_URL env @ ''/api/backgrounds'', http_method = ''GET'', form = []\<rparr>
             = Inr resp"
    and "ok resp" and "json_body resp = Inr data" and "data \<noteq> JNull"
    and "\<forall>kvs. data = JObj kvs \<longrightarrow> ''backgrounds'' \<notin> fst ` set kvs"
  shows "getAvailableBackgrounds env fetch = Inr (JArr [])"
proof -
  have "js_get data ''backgrounds'' = Inr None"
  proof (cases data)
    case (JObj kvs)
    with assms(5) have "''backgrounds'' \<notin> fst ` set (rev kvs)" by simp
    then have "map_of (rev kvs) ''backgrounds'' = None"
      by (simp add: map_of_eq_None_iff)
    with JObj show ?thesis by simp
  qed (use assms(4) in simp_all)
  with assms(1-3) show ?thesis
    by (simp add: getAvailableBackgrounds_def)
qed

text \<open>Witness: the body is the object \<open>{"message": "ok"}\<close>.\<close>

theorem getAvailableBackgrounds_missing_field_witness:
  "getAvailableBackgrounds None
     (\<lambda>req. Inr \<lparr>ok = True, json_body = Inr (JObj [(''message'', JStr ''ok'')])\<rparr>)
    = Inr (JArr [])"
  using getAvailableBackgrounds_missing_field
    [of "\<lambda>req. Inr \<lparr>ok = True, json_body = Inr (JObj [(''message'', JStr ''ok'')])\<rparr>" None
        "\<lparr>ok = True, json_body = Inr (JObj [(''message'', JStr ''ok'')])\<rparr>"
        "JObj [(''message'', JStr ''ok'')]"]
  by simp

end
